theory Spec2Isabelle
  imports Main "HOL-Library.AList"
begin

section \<open>Python values and exceptions\<close>

text \<open>
  The module \<^verbatim>\<open>src/app/utils/llm.py\<close> builds a chat-completion request, sends it through
  the Azure OpenAI client, and decodes the answer with \<^verbatim>\<open>json.loads\<close>. The embedding below
  follows it statement by statement. Everything the module calls outside itself (the process
  environment, the token provider, the client library, tiktoken) is a field of a record
  \<open>world\<close>, so that every theorem holds for every behaviour of these collaborators.

  A Python \<^verbatim>\<open>str\<close> is a \<open>string\<close> holding its UTF-8 encoding; concatenation and interpolation
  commute with the encoding. A Python \<^verbatim>\<open>float\<close> is kept as the decimal literal that denotes
  it (\<open>0.7\<close> is \<open>''0.7''\<close>): the module never computes with one.
\<close>

type_synonym py_float = string

datatype pyobj =
    PyNone
  | PyBool bool
  | PyInt int
  | PyFloat py_float
  | PyStr string
  | PyList "pyobj list"
  | PyDict "(string \<times> pyobj) list"

text \<open>The messages of \<^verbatim>\<open>json.JSONDecodeError\<close> (the position it also carries is left out).\<close>

datatype json_msg =
    UnexpectedBOM
  | ExpectingValue
  | ExtraData
  | UnterminatedString
  | InvalidControlCharacter
  | InvalidEscape
  | InvalidUnicodeEscape
  | ExpectingPropertyName
  | ExpectingColon
  | ExpectingComma

text \<open>
  The exceptions a call of the module can end with. \<open>External\<close> is any exception raised by
  a collaborator (transport, authentication, provider, configuration), named by the
  collaborator. \<open>Unmodelled\<close> is returned by the model of \<^verbatim>\<open>str.format\<close> on replacement fields
  with a conversion, a format specification or an attribute or index lookup, whose
  behaviour is not described here; the template of this module has none.
\<close>

datatype py_error =
    IndexError
  | KeyError string
  | ValueError
  | TypeError
  | JSONDecodeError json_msg
  | External string
  | Unmodelled

section \<open>json.loads\<close>

text \<open>
  The decoder of the standard library as CPython 3.12 runs it (\<^verbatim>\<open>json.decoder\<close> with the
  scanner and \<^verbatim>\<open>scanstring\<close> of the C module \<^verbatim>\<open>_json\<close>, which it uses when present),
  with the defaults \<^verbatim>\<open>json.loads\<close> uses: strict mode, no hooks. Its recursive descent is
  written as one loop over the remaining input with an explicit stack of the arrays and
  objects that are open, so that it is total by a measure on the input. The interpreter's
  recursion limit and its limit on the digits of an integer literal are resource bounds
  outside this model.
\<close>

definition is_ws :: "char \<Rightarrow> bool" where
  "is_ws c = (c = CHR '' '' \<or> c = CHR 0x09 \<or> c = CHR 0x0A \<or> c = CHR 0x0D)"

definition skip_ws :: "string \<Rightarrow> string" where
  "skip_ws s = dropWhile is_ws s"

definition is_digit :: "char \<Rightarrow> bool" where
  "is_digit c = (48 \<le> (of_char c :: nat) \<and> (of_char c :: nat) \<le> 57)"

definition digit_val :: "char \<Rightarrow> nat" where
  "digit_val c = of_char c - 48"

definition nat_of_digits :: "string \<Rightarrow> nat" where
  "nat_of_digits ds = foldl (\<lambda>a c. 10 * a + digit_val c) 0 ds"

text \<open>\<^verbatim>\<open>int(integer)\<close> on a lexeme matched by \<open>-?(0|[1-9][0-9]*)\<close>.\<close>

definition digits_val :: "string \<Rightarrow> int" where
  "digits_val s =
     (case s of
        [] \<Rightarrow> 0
      | c # r \<Rightarrow> if c = CHR ''-'' then - int (nat_of_digits r) else int (nat_of_digits s))"

definition hex_val :: "char \<Rightarrow> nat option" where
  "hex_val c =
     (let n = (of_char c :: nat) in
      if 48 \<le> n \<and> n \<le> 57 then Some (n - 48)
      else if 65 \<le> n \<and> n \<le> 70 then Some (n - 55)
      else if 97 \<le> n \<and> n \<le> 102 then Some (n - 87)
      else None)"

text \<open>\<^verbatim>\<open>_decode_uXXXX\<close>: four hexadecimal digits, or the escape is invalid.\<close>

fun decode_uXXXX :: "string \<Rightarrow> nat option" where
  "decode_uXXXX (a # b # c # d # r) =
     (case (hex_val a, hex_val b, hex_val c, hex_val d) of
        (Some x, Some y, Some z, Some w) \<Rightarrow> Some (((x * 16 + y) * 16 + z) * 16 + w)
      | _ \<Rightarrow> None)"
| "decode_uXXXX _ = None"

text \<open>\<^verbatim>\<open>chr(n)\<close>, as the UTF-8 bytes of the code point.\<close>

definition chr_utf8 :: "nat \<Rightarrow> string" where
  "chr_utf8 n =
     (if n < 0x80 then [char_of n]
      else if n < 0x800 then [char_of (0xC0 + n div 64), char_of (0x80 + n mod 64)]
      else if n < 0x10000 then
        [char_of (0xE0 + n div 4096), char_of (0x80 + (n div 64) mod 64), char_of (0x80 + n mod 64)]
      else
        [char_of (0xF0 + n div 262144), char_of (0x80 + (n div 4096) mod 64),
         char_of (0x80 + (n div 64) mod 64), char_of (0x80 + n mod 64)])"

definition BACKSLASH :: "char \<Rightarrow> char option" where
  "BACKSLASH c =
     (if c = CHR 0x22 then Some (CHR 0x22)
      else if c = CHR 0x5C then Some (CHR 0x5C)
      else if c = CHR ''/'' then Some (CHR ''/'')
      else if c = CHR ''b'' then Some (CHR 0x08)
      else if c = CHR ''f'' then Some (CHR 0x0C)
      else if c = CHR ''n'' then Some (CHR 0x0A)
      else if c = CHR ''r'' then Some (CHR 0x0D)
      else if c = CHR ''t'' then Some (CHR 0x09)
      else None)"

text \<open>
  \<^verbatim>\<open>scanstring\<close>, entered after the opening quote: the decoded text and the input after the
  closing quote. A unicode escape needs its four digits and one more character after them
  (the scanner checks that the digits end before the end of the input), and the second
  half of a surrogate pair is looked for only when seven more characters follow the first.
\<close>

fun scanstring :: "string \<Rightarrow> string \<Rightarrow> json_msg + (string \<times> string)" where
  "scanstring acc [] = Inl UnterminatedString"
| "scanstring acc (c # r) =
     (if c = CHR 0x22 then Inr (acc, r)
      else if c = CHR 0x5C then
        (case r of
           [] \<Rightarrow> Inl UnterminatedString
         | esc # r1 \<Rightarrow>
             if esc \<noteq> CHR ''u'' then
               (case BACKSLASH esc of
                  None \<Rightarrow> Inl InvalidEscape
                | Some ch \<Rightarrow> scanstring (acc @ [ch]) r1)
             else if length r1 \<le> 4 then Inl InvalidUnicodeEscape
             else
               (case decode_uXXXX r1 of
                  None \<Rightarrow> Inl InvalidUnicodeEscape
                | Some uni \<Rightarrow>
                    let r2 = drop 4 r1 in
                    if 0xD800 \<le> uni \<and> uni \<le> 0xDBFF \<and> 6 < length r2 \<and>
                       take 2 r2 = [CHR 0x5C, CHR ''u''] then
                      (case decode_uXXXX (drop 2 r2) of
                         None \<Rightarrow> Inl InvalidUnicodeEscape
                       | Some uni2 \<Rightarrow>
                           if 0xDC00 \<le> uni2 \<and> uni2 \<le> 0xDFFF then
                             scanstring
                               (acc @ chr_utf8 (0x10000 + (uni - 0xD800) * 1024 + (uni2 - 0xDC00)))
                               (drop 6 r2)
                           else scanstring (acc @ chr_utf8 uni) r2)
                    else scanstring (acc @ chr_utf8 uni) r2))
      else if (of_char c :: nat) < 0x20 then Inl InvalidControlCharacter
      else scanstring (acc @ [c]) r)"

text \<open>\<^verbatim>\<open>NUMBER_RE\<close>: \<open>(-?(?:0|[1-9][0-9]*))(\.[0-9]+)?([eE][-+]?[0-9]+)?\<close>, group by group.\<close>

definition match_integer :: "string \<Rightarrow> (string \<times> string) option" where
  "match_integer s =
     (let (sgn, r0) = (case s of [] \<Rightarrow> ([], []) | c # r \<Rightarrow> if c = CHR ''-'' then ([c], r) else ([], s))
      in case r0 of
           [] \<Rightarrow> None
         | d # r1 \<Rightarrow>
             if d = CHR ''0'' then Some (sgn @ [d], r1)
             else if is_digit d then Some (sgn @ d # takeWhile is_digit r1, dropWhile is_digit r1)
             else None)"

definition match_frac :: "string \<Rightarrow> string \<times> string" where
  "match_frac s =
     (case s of
        [] \<Rightarrow> ([], s)
      | c # r \<Rightarrow>
          if c = CHR ''.'' \<and> takeWhile is_digit r \<noteq> []
          then (c # takeWhile is_digit r, dropWhile is_digit r)
          else ([], s))"

definition match_exp :: "string \<Rightarrow> string \<times> string" where
  "match_exp s =
     (case s of
        [] \<Rightarrow> ([], s)
      | c # r \<Rightarrow>
          if c = CHR ''e'' \<or> c = CHR ''E'' then
            (let (sgn, r1) =
                   (case r of
                      [] \<Rightarrow> ([], r)
                    | p # r' \<Rightarrow> if p = CHR ''-'' \<or> p = CHR ''+'' then ([p], r') else ([], r))
             in if takeWhile is_digit r1 \<noteq> []
                then (c # sgn @ takeWhile is_digit r1, dropWhile is_digit r1)
                else ([], s))
          else ([], s))"

definition match_number :: "string \<Rightarrow> (pyobj \<times> string) option" where
  "match_number s =
     (case match_integer s of
        None \<Rightarrow> None
      | Some (integer, r1) \<Rightarrow>
          (let (frac, r2) = match_frac r1; (ex, r3) = match_exp r2
           in if frac \<noteq> [] \<or> ex \<noteq> [] then Some (PyFloat (integer @ frac @ ex), r3)
              else Some (PyInt (digits_val integer), r3)))"

text \<open>
  \<^verbatim>\<open>dict(pairs)\<close>: a repeated key keeps its first position and takes its last value.
\<close>

definition dict :: "(string \<times> pyobj) list \<Rightarrow> (string \<times> pyobj) list" where
  "dict pairs = foldl (\<lambda>d (k, v). AList.update k v d) [] pairs"

text \<open>
  The open containers: an array with the elements read so far, an object with the pairs
  read so far and the key whose value is being read. The control is where the decoder
  stands: before a value (\<^verbatim>\<open>scan_once\<close>), after the opening quote of a key, or after a
  complete value that goes to the innermost open container.
\<close>

datatype frame = ArrayFrame "pyobj list" | ObjectFrame "(string \<times> pyobj) list" string

datatype ctrl = ScanOnce | ScanKey "(string \<times> pyobj) list" | Return pyobj

lemma skip_ws_length: "length (skip_ws s) \<le> length s"
  by (simp add: skip_ws_def length_dropWhile_le)

lemma skip_ws_Cons_length: "skip_ws s = c # r \<Longrightarrow> length r < length s"
  using skip_ws_length [of s] by simp

lemma skip_ws_less: "length s < n \<Longrightarrow> length (skip_ws s) < n"
  using skip_ws_length [of s] by simp

lemma skip_ws_less_Suc: "length (skip_ws s) - k < Suc (length s)"
  using skip_ws_length [of s] by simp

lemma scanstring_length: "scanstring acc s = Inr (x, r) \<Longrightarrow> length r < length s"
proof (induction s arbitrary: acc rule: length_induct)
  case (1 s)
  show ?case
  proof (cases s)
    case Nil
    with "1.prems" show ?thesis by simp
  next
    case (Cons c r0)
    have step: "length r < length s'"
      if "scanstring acc' s' = Inr (x, r)" and "length s' \<le> length r0" for acc' s'
    proof -
      from that(2) Cons have "length s' < length s" by simp
      with "1.IH" that(1) show ?thesis by blast
    qed
    from "1.prems" Cons show ?thesis
      by (auto simp: Let_def split: if_splits list.splits option.splits dest!: step)
  qed
qed

lemma match_integer_length: "match_integer s = Some (x, r) \<Longrightarrow> length r < length s"
  by (auto simp: match_integer_def Let_def less_Suc_eq_le length_dropWhile_le
      le_SucI split: list.splits if_splits)

lemma match_frac_length: "match_frac s = (x, r) \<Longrightarrow> length r \<le> length s"
  by (auto simp: match_frac_def length_dropWhile_le le_SucI split: list.splits if_splits)

lemma match_exp_length: "match_exp s = (x, r) \<Longrightarrow> length r \<le> length s"
  by (auto simp: match_exp_def Let_def length_dropWhile_le le_SucI
      split: list.splits if_splits)

lemma match_number_length: "match_number s = Some (v, r) \<Longrightarrow> length r < length s"
  by (auto simp: match_number_def Let_def split: option.splits prod.splits if_splits
      dest!: match_integer_length match_frac_length match_exp_length)

function run :: "ctrl \<Rightarrow> frame list \<Rightarrow> string \<Rightarrow> json_msg + (pyobj \<times> string)" where
  "run ScanOnce stk [] = Inl ExpectingValue"
| "run ScanOnce stk (c # r) =
     (if c = CHR 0x22 then
        (case scanstring [] r of
           Inl e \<Rightarrow> Inl e
         | Inr (str, r1) \<Rightarrow> run (Return (PyStr str)) stk r1)
      else if c = CHR ''{'' then
        (case (if take 1 r = [CHR 0x22] then r else skip_ws r) of
           [] \<Rightarrow> Inl ExpectingPropertyName
         | q # r1 \<Rightarrow>
             if q = CHR 0x22 then run (ScanKey []) stk r1
             else if q = CHR ''}'' then run (Return (PyDict [])) stk r1
             else Inl ExpectingPropertyName)
      else if c = CHR ''['' then
        (if take 1 (skip_ws r) = '']'' then run (Return (PyList [])) stk (drop 1 (skip_ws r))
         else run ScanOnce (ArrayFrame [] # stk) (skip_ws r))
      else if take 4 (c # r) = ''null'' then run (Return PyNone) stk (drop 4 (c # r))
      else if take 4 (c # r) = ''true'' then run (Return (PyBool True)) stk (drop 4 (c # r))
      else if take 5 (c # r) = ''false'' then run (Return (PyBool False)) stk (drop 5 (c # r))
      else
        (case match_number (c # r) of
           Some (v, r1) \<Rightarrow> run (Return v) stk r1
         | None \<Rightarrow>
             if take 3 (c # r) = ''NaN'' then run (Return (PyFloat ''NaN'')) stk (drop 3 (c # r))
             else if take 8 (c # r) = ''Infinity''
               then run (Return (PyFloat ''Infinity'')) stk (drop 8 (c # r))
             else if take 9 (c # r) = ''-Infinity''
               then run (Return (PyFloat ''-Infinity'')) stk (drop 9 (c # r))
             else Inl ExpectingValue))"
| "run (ScanKey pairs) stk s =
     (case scanstring [] s of
        Inl e \<Rightarrow> Inl e
      | Inr (k, r) \<Rightarrow>
          (case skip_ws r of
             [] \<Rightarrow> Inl ExpectingColon
           | c # r1 \<Rightarrow>
               if c = CHR '':'' then run ScanOnce (ObjectFrame pairs k # stk) (skip_ws r1)
               else Inl ExpectingColon))"
| "run (Return v) [] s = Inr (v, s)"
| "run (Return v) (ArrayFrame vs # stk) s =
     (case skip_ws s of
        [] \<Rightarrow> Inl ExpectingComma
      | c # r \<Rightarrow>
          if c = CHR '']'' then run (Return (PyList (vs @ [v]))) stk r
          else if c = CHR '','' then run ScanOnce (ArrayFrame (vs @ [v]) # stk) (skip_ws r)
          else Inl ExpectingComma)"
| "run (Return v) (ObjectFrame pairs k # stk) s =
     (case skip_ws s of
        [] \<Rightarrow> Inl ExpectingComma
      | c # r \<Rightarrow>
          if c = CHR ''}'' then run (Return (PyDict (dict (pairs @ [(k, v)])))) stk r
          else if c = CHR '','' then
            (case skip_ws r of
               [] \<Rightarrow> Inl ExpectingPropertyName
             | q # r1 \<Rightarrow>
                 if q = CHR 0x22 then run (ScanKey (pairs @ [(k, v)])) stk r1
                 else Inl ExpectingPropertyName)
          else Inl ExpectingComma)"
  by pat_completeness auto

termination run
proof (relation "measure (\<lambda>(c, stk, s). length s)", goal_cases)
  case 1
  show ?case by simp
qed (auto dest!: scanstring_length match_number_length skip_ws_Cons_length
      intro: skip_ws_less skip_ws_less_Suc skip_ws_less_Suc [where k = 0, simplified]
      split: if_splits)

text \<open>\<^verbatim>\<open>JSONDecoder.decode\<close>: one value, with white space around it and nothing after.\<close>

definition decode :: "string \<Rightarrow> json_msg + pyobj" where
  "decode s =
     (case run ScanOnce [] (skip_ws s) of
        Inl e \<Rightarrow> Inl e
      | Inr (obj, r) \<Rightarrow> if skip_ws r = [] then Inr obj else Inl ExtraData)"

text \<open>
  \<^verbatim>\<open>json.loads(s)\<close> on the content of a message, which the client library types
  \<^verbatim>\<open>Optional[str]\<close>: \<^verbatim>\<open>None\<close> is a \<^verbatim>\<open>TypeError\<close>, a text that starts with a byte order mark
  or is not JSON is a \<^verbatim>\<open>JSONDecodeError\<close>.
\<close>

definition json_loads :: "string option \<Rightarrow> py_error + pyobj" where
  "json_loads s =
     (case s of
        None \<Rightarrow> Inl TypeError
      | Some t \<Rightarrow>
          if take 3 t = [CHR 0xEF, CHR 0xBB, CHR 0xBF] then Inl (JSONDecodeError UnexpectedBOM)
          else (case decode t of Inl m \<Rightarrow> Inl (JSONDecodeError m) | Inr obj \<Rightarrow> Inr obj))"

section \<open>str.strip and str.format\<close>

text \<open>
  \<^verbatim>\<open>str.strip()\<close> removes white space at both ends. The module applies it to one ASCII
  literal, so the ASCII white space of Python is what is modelled.
\<close>

definition py_isspace :: "char \<Rightarrow> bool" where
  "py_isspace c =
     (let n = (of_char c :: nat) in (9 \<le> n \<and> n \<le> 13) \<or> (28 \<le> n \<and> n \<le> 32))"

definition py_strip :: "string \<Rightarrow> string" where
  "py_strip s = rev (dropWhile py_isspace (rev (dropWhile py_isspace s)))"

text \<open>
  \<^verbatim>\<open>template.format(**kwargs)\<close> with keyword arguments only, read from left to right:
  \<open>{{\<close> and \<open>}}\<close> are literal braces, \<open>{name}\<close> is replaced by the argument of that
  name. A field that is empty or a number asks for a positional argument, of which there
  is none; a name that is not an argument is a \<^verbatim>\<open>KeyError\<close>; a brace left alone is a
  \<^verbatim>\<open>ValueError\<close>.
\<close>

definition get_field :: "(string \<times> string) list \<Rightarrow> string \<Rightarrow> py_error + string" where
  "get_field kwargs f =
     (if list_ex (\<lambda>c. c \<in> set ''!:.[{'') f then Inl Unmodelled
      else if list_all is_digit f then Inl IndexError
      else (case map_of kwargs f of None \<Rightarrow> Inl (KeyError f) | Some v \<Rightarrow> Inr v))"

fun format_loop ::
  "(string \<times> string) list \<Rightarrow> string \<Rightarrow> string option \<Rightarrow> string \<Rightarrow> py_error + string" where
  "format_loop kwargs out None [] = Inr out"
| "format_loop kwargs out (Some f) [] = Inl ValueError"
| "format_loop kwargs out (Some f) (c # r) =
     (if c = CHR ''}'' then
        (case get_field kwargs f of
           Inl e \<Rightarrow> Inl e
         | Inr v \<Rightarrow> format_loop kwargs (out @ v) None r)
      else format_loop kwargs out (Some (f @ [c])) r)"
| "format_loop kwargs out None (c # r) =
     (if c = CHR ''{'' then
        (case r of
           [] \<Rightarrow> Inl ValueError
         | d # r1 \<Rightarrow>
             if d = CHR ''{'' then format_loop kwargs (out @ [c]) None r1
             else format_loop kwargs out (Some []) r)
      else if c = CHR ''}'' then
        (case r of
           [] \<Rightarrow> Inl ValueError
         | d # r1 \<Rightarrow>
             if d = CHR ''}'' then format_loop kwargs (out @ [c]) None r1
             else Inl ValueError)
      else format_loop kwargs (out @ [c]) None r)"

definition py_format :: "string \<Rightarrow> (string \<times> string) list \<Rightarrow> py_error + string" where
  "py_format template kwargs = format_loop kwargs [] None template"

section \<open>The module's constants\<close>

text \<open>The triple-quoted literal of lines 13 to 50, and \<^verbatim>\<open>PROMPT\<close>, which is the literal stripped.\<close>

definition PROMPT_literal :: string where
  \<open>PROMPT_literal =
     ''\<newline>'' @
     ''Create a highly engaging podcast script named '{title}' between two people based on the input text. Use informal language to enhance the human-like quality of the conversation, including expressions like "wow," laughter, and pauses such as "uhm."\<newline>'' @
     ''\<newline>'' @
     ''# Steps\<newline>'' @
     ''\<newline>'' @
     ''1. **Review the Document(s) and Podcast Title**: Understand the main themes, key points, and tone.\<newline>'' @
     ''2. **Character Development**: Define two distinct personalities for the hosts.\<newline>'' @
     ''3. **Script Structure**: Outline the introduction, main discussion, and conclusion.\<newline>'' @
     ''4. **Incorporate Informal Language**: Use expressions and fillers to create a natural dialogue flow.\<newline>'' @
     ''5. **Engage with Humor and Emotion**: Include laughter and emotional responses to make the conversation lively.\<newline>'' @
     ''\<newline>'' @
     ''# Output Format\<newline>'' @
     ''\<newline>'' @
     ''- A conversational podcast script in structured JSON.\<newline>'' @
     ''- Include informal expressions and pauses.\<newline>'' @
     ''- Clearly mark speaker turns.\<newline>'' @
     ''- Name the hosts Andrew and Emma.\<newline>'' @
     ''\<newline>'' @
     ''# Examples\<newline>'' @
     ''\<newline>'' @
     ''**Input:**\<newline>'' @
     ''- Document: [Brief overview of the content, main themes, or key points]\<newline>'' @
     ''- Podcast Title: "Exploring the Wonders of Space"\<newline>'' @
     ''\<newline>'' @
     ''**Output:**\<newline>'' @
     ''- Speaker 1: "Hey everyone, welcome to 'Exploring the Wonders of Space!' I'm [Name], and with me is [Name]."\<newline>'' @
     ''- Speaker 2: "Hey! Uhm, I'm super excited about today's topic. Did you see the latest on the new satellite launch?"\<newline>'' @
     ''- Speaker 1: "Wow, yes! It's incredible. I mean, imagine the data we'll get! [laughter]"\<newline>'' @
     ''- (Continue with discussion, incorporating humor and informal language)\<newline>'' @
     ''\<newline>'' @
     ''# Notes\<newline>'' @
     ''\<newline>'' @
     ''- Maintain a balance between informal language and clear communication.\<newline>'' @
     ''- Ensure the conversation is coherent and follows a logical progression.\<newline>'' @
     ''- Adapt the style and tone based on the document's content and podcast title.\<newline>'' @
     ''- Think step by step, grasp the key points of the document / paper, and explain them in a conversational tone.\<newline>'' @
     ''- Make sure the conversation will take about 5 minutes to read out loud.\<newline>''\<close>

definition PROMPT :: string where
  "PROMPT = py_strip PROMPT_literal"

definition JSON_SCHEMA :: pyobj where
  "JSON_SCHEMA =
     PyDict
      [(''name'', PyStr ''podcast''),
       (''strict'', PyBool True),
       (''description'', PyStr ''An AI generated podcast script.''),
       (''schema'',
        PyDict
         [(''type'', PyStr ''object''),
          (''properties'',
           PyDict
            [(''config'',
              PyDict
               [(''type'', PyStr ''object''),
                (''properties'',
                 PyDict
                  [(''language'',
                    PyDict
                     [(''type'', PyStr ''string''),
                      (''description'',
                       PyStr ''Language code + locale (BCP-47), e.g. en-US or es-PA'')])]),
                (''required'', PyList [PyStr ''language'']),
                (''additionalProperties'', PyBool False)]),
             (''script'',
              PyDict
               [(''type'', PyStr ''array''),
                (''items'',
                 PyDict
                  [(''type'', PyStr ''object''),
                   (''properties'',
                    PyDict
                     [(''name'',
                       PyDict
                        [(''type'', PyStr ''string''),
                         (''description'', PyStr ''Name of the host in lower-case'')]),
                      (''message'', PyDict [(''type'', PyStr ''string'')])]),
                   (''required'', PyList [PyStr ''name'', PyStr ''message'']),
                   (''additionalProperties'', PyBool False)])])]),
          (''required'', PyList [PyStr ''config'', PyStr ''script'']),
          (''additionalProperties'', PyBool False)])]"

section \<open>The client library's types and the result type\<close>

text \<open>
  \<^verbatim>\<open>CompletionUsage\<close>, \<^verbatim>\<open>ChatCompletionMessage\<close>, \<^verbatim>\<open>Choice\<close> and \<^verbatim>\<open>ChatCompletion\<close> of the
  client library, with the attributes the module reads. The library types the content of
  a message and the usage of a completion as optional.
\<close>

record CompletionUsage =
  completion_tokens :: int
  prompt_tokens :: int
  total_tokens :: int

record ChatCompletionMessage =
  content :: "string option"

record Choice =
  message :: ChatCompletionMessage

record ChatCompletion =
  choices :: "Choice list"
  usage :: "CompletionUsage option"

text \<open>
  The dataclass of lines 92 to 95. Python does not check the annotations: \<open>podcast\<close> is
  whatever \<^verbatim>\<open>json.loads\<close> returned, \<open>usage\<close> whatever the completion carried.
\<close>

record PodcastScriptResponse =
  podcast :: pyobj
  usage :: "CompletionUsage option"

text \<open>
  The keyword arguments of the two calls into the client library. In \<open>AzureOpenAI_kwargs\<close>
  an argument that the call does not pass is \<open>None\<close>; \<open>api_key\<close> and a passed
  \<open>azure_endpoint\<close> hold what \<^verbatim>\<open>os.getenv\<close> returned, which is \<^verbatim>\<open>None\<close> for a variable that
  is not set. A message is the dictionary the source writes.
\<close>

record 'tp AzureOpenAI_kwargs =
  api_key :: "string option"
  api_version :: string
  azure_endpoint :: "string option option"
  azure_ad_token_provider :: "'tp option"

record create_kwargs =
  messages :: "(string \<times> string) list list"
  model :: string
  temperature :: py_float
  response_format :: pyobj
  max_tokens :: int

section \<open>The collaborators\<close>

text \<open>
  What a call finds outside the module: the process environment; what
  \<^verbatim>\<open>utils.identity.get_token_provider()\<close> returns or raises; whether the constructor
  \<^verbatim>\<open>AzureOpenAI(...)\<close> raises on its arguments; what \<^verbatim>\<open>client.chat.completions.create(...)\<close>
  returns or raises for a client and a request, and how many HTTP requests the client
  library sends for that call; and what the \<open>n\<close>-th call of
  \<^verbatim>\<open>tiktoken.encoding_for_model\<close> in the process returns or raises. A client is identified
  with the arguments it was built from.

  The module builds the client without \<^verbatim>\<open>max_retries\<close>, so how often a request is sent is
  the library's retry policy (by default up to two retries after the first attempt):
  \<open>http_attempts\<close> is not bounded by the module.
\<close>

record ('tp, 'enc) world =
  environ :: "string \<rightharpoonup> string"
  get_token_provider :: "py_error + 'tp"
  AzureOpenAI :: "'tp AzureOpenAI_kwargs \<Rightarrow> py_error option"
  chat_completions_create :: "'tp AzureOpenAI_kwargs \<Rightarrow> create_kwargs \<Rightarrow> py_error + ChatCompletion"
  http_attempts :: "'tp AzureOpenAI_kwargs \<Rightarrow> create_kwargs \<Rightarrow> nat"
  encoding_for_model :: "nat \<Rightarrow> string \<Rightarrow> py_error + 'enc"

text \<open>The calls a run makes into its collaborators, in order.\<close>

datatype 'tp call =
    Call_get_token_provider
  | Call_AzureOpenAI "'tp AzureOpenAI_kwargs"
  | Call_create "'tp AzureOpenAI_kwargs" create_kwargs

definition os_getenv :: "(string \<rightharpoonup> string) \<Rightarrow> string \<Rightarrow> string option" where
  "os_getenv env key = env key"

definition os_getenv_default :: "(string \<rightharpoonup> string) \<Rightarrow> string \<Rightarrow> string \<Rightarrow> string" where
  "os_getenv_default env key dflt = (case env key of None \<Rightarrow> dflt | Some v \<Rightarrow> v)"

text \<open>The truth value of what \<^verbatim>\<open>os.getenv\<close> returns: \<^verbatim>\<open>None\<close> and the empty string are false.\<close>

definition truthy :: "string option \<Rightarrow> bool" where
  "truthy v = (case v of None \<Rightarrow> False | Some s \<Rightarrow> s \<noteq> [])"

section \<open>document_to_podcast_script\<close>

text \<open>
  Lines 103 to 114: the client. The condition is the truth value of
  \<^verbatim>\<open>os.getenv("AZURE_OPENAI_KEY")\<close>. The keyword arguments are evaluated before the
  constructor is called, so in the second branch \<^verbatim>\<open>get_token_provider()\<close> is called first
  and an exception of it leaves the constructor uncalled.
\<close>

definition make_client ::
  "('tp, 'enc) world \<Rightarrow> 'tp call list \<times> (py_error + 'tp AzureOpenAI_kwargs)" where
  "make_client w =
     (if truthy (os_getenv (environ w) ''AZURE_OPENAI_KEY'') then
        (let kwargs =
               \<lparr>api_key = os_getenv (environ w) ''AZURE_OPENAI_KEY'',
                api_version = ''2024-09-01-preview'',
                azure_endpoint = Some (os_getenv (environ w) ''AZURE_OPENAI_ENDPOINT''),
                azure_ad_token_provider = None\<rparr>
         in ([Call_AzureOpenAI kwargs],
             case AzureOpenAI w kwargs of Some e \<Rightarrow> Inl e | None \<Rightarrow> Inr kwargs))
      else
        (case get_token_provider w of
           Inl e \<Rightarrow> ([Call_get_token_provider], Inl e)
         | Inr tp \<Rightarrow>
             (let kwargs =
                    \<lparr>api_key = os_getenv (environ w) ''AZURE_OPENAI_KEY'',
                     api_version = ''2024-09-01-preview'',
                     azure_endpoint = None,
                     azure_ad_token_provider = Some tp\<rparr>
              in ([Call_get_token_provider, Call_AzureOpenAI kwargs],
                  case AzureOpenAI w kwargs of Some e \<Rightarrow> Inl e | None \<Rightarrow> Inr kwargs))))"

text \<open>
  Lines 117 to 132: the keyword arguments of \<^verbatim>\<open>client.chat.completions.create\<close>, evaluated
  in the order written. \<^verbatim>\<open>PROMPT.format(title=title)\<close> is the only one that could raise.
\<close>

definition create_request ::
  "(string \<rightharpoonup> string) \<Rightarrow> string \<Rightarrow> string \<Rightarrow> py_error + create_kwargs" where
  "create_request env document title =
     (case py_format PROMPT [(''title'', title)] of
        Inl e \<Rightarrow> Inl e
      | Inr system_content \<Rightarrow>
          Inr \<lparr>messages =
                 [[(''role'', ''system''), (''content'', system_content)],
                  [(''role'', ''user''),
                   (''content'', ''<documents>'' @ document @ ''</documents>'')]],
               model = os_getenv_default env ''AZURE_OPENAI_MODEL_DEPLOYMENT'' ''gpt-4o'',
               temperature = ''0.7'',
               response_format =
                 PyDict [(''type'', PyStr ''json_schema''), (''json_schema'', JSON_SCHEMA)],
               max_tokens = 8000\<rparr>)"

text \<open>
  Lines 135 to 138: the first choice's content, decoded, and the completion's usage. An
  empty list of choices is the \<^verbatim>\<open>IndexError\<close> of \<^verbatim>\<open>choices[0]\<close>.
\<close>

definition read_completion :: "ChatCompletion \<Rightarrow> py_error + PodcastScriptResponse" where
  "read_completion chat_completion =
     (case choices chat_completion of
        [] \<Rightarrow> Inl IndexError
      | choice0 # _ \<Rightarrow>
          (case json_loads (content (message choice0)) of
             Inl e \<Rightarrow> Inl e
           | Inr json_message \<Rightarrow>
               Inr \<lparr>podcast = json_message, usage = ChatCompletion.usage chat_completion\<rparr>))"

text \<open>
  Lines 98 to 138. The title is optional with the default of line 99. The result is the
  calls made into the collaborators and what the function returns or raises.
\<close>

definition document_to_podcast_script ::
  "('tp, 'enc) world \<Rightarrow> string \<Rightarrow> string option
     \<Rightarrow> 'tp call list \<times> (py_error + PodcastScriptResponse)" where
  "document_to_podcast_script w document title_arg =
     (let title = (case title_arg of None \<Rightarrow> ''AI in Action'' | Some t \<Rightarrow> t) in
      case make_client w of
        (calls, Inl e) \<Rightarrow> (calls, Inl e)
      | (calls, Inr client) \<Rightarrow>
          (case create_request (environ w) document title of
             Inl e \<Rightarrow> (calls, Inl e)
           | Inr request \<Rightarrow>
               (calls @ [Call_create client request],
                case chat_completions_create w client request of
                  Inl e \<Rightarrow> Inl e
                | Inr chat_completion \<Rightarrow> read_completion chat_completion)))"

text \<open>
  The calls of \<^verbatim>\<open>client.chat.completions.create\<close> among the calls of a run, each with its
  client and the request handed to the client library. These are the module's requests
  to the library, not yet what goes over the wire.
\<close>

fun requests :: "'tp call list \<Rightarrow> ('tp AzureOpenAI_kwargs \<times> create_kwargs) list" where
  "requests [] = []"
| "requests (Call_create client request # cs) = (client, request) # requests cs"
| "requests (_ # cs) = requests cs"

text \<open>
  The HTTP requests of a run, in order: the client library sends the request of each
  call of \<^verbatim>\<open>create\<close> as many times as its retry policy has it, the same request every time.
\<close>

fun outbound ::
  "('tp, 'enc) world \<Rightarrow> 'tp call list \<Rightarrow> ('tp AzureOpenAI_kwargs \<times> create_kwargs) list" where
  "outbound w [] = []"
| "outbound w (Call_create client request # cs) =
     replicate (http_attempts w client request) (client, request) @ outbound w cs"
| "outbound w (_ # cs) = outbound w cs"

text \<open>The arguments of the constructor calls of a run.\<close>

fun constructions :: "'tp call list \<Rightarrow> 'tp AzureOpenAI_kwargs list" where
  "constructions [] = []"
| "constructions (Call_AzureOpenAI kwargs # cs) = kwargs # constructions cs"
| "constructions (_ # cs) = constructions cs"

section \<open>get_encoding\<close>

text \<open>
  Lines 141 to 146. The process keeps what \<^verbatim>\<open>st.cache_resource\<close> has stored for the function
  (it has no argument, so there is one entry) and the model names asked of tiktoken so
  far. The decorator returns the stored object when there is one; otherwise it runs the
  body and stores what the body returns. An exception of the body is not stored.
\<close>

record 'enc process =
  cache_resource :: "'enc option"
  tiktoken_calls :: "string list"

definition get_encoding_body ::
  "('tp, 'enc) world \<Rightarrow> 'enc process \<Rightarrow> (py_error + 'enc) \<times> 'enc process" where
  "get_encoding_body w p =
     (encoding_for_model w (length (tiktoken_calls p)) ''gpt-4o'',
      p\<lparr>tiktoken_calls := tiktoken_calls p @ [''gpt-4o'']\<rparr>)"

definition st_cache_resource ::
  "('enc process \<Rightarrow> (py_error + 'enc) \<times> 'enc process)
     \<Rightarrow> 'enc process \<Rightarrow> (py_error + 'enc) \<times> 'enc process" where
  "st_cache_resource body p =
     (case cache_resource p of
        Some encoding \<Rightarrow> (Inr encoding, p)
      | None \<Rightarrow>
          (case body p of
             (Inl e, p') \<Rightarrow> (Inl e, p')
           | (Inr encoding, p') \<Rightarrow> (Inr encoding, p'\<lparr>cache_resource := Some encoding\<rparr>)))"

definition get_encoding ::
  "('tp, 'enc) world \<Rightarrow> 'enc process \<Rightarrow> (py_error + 'enc) \<times> 'enc process" where
  "get_encoding w = st_cache_resource (get_encoding_body w)"

section \<open>Validation against a JSON schema\<close>

text \<open>
  What it means for a decoded value to validate against a schema, for the keywords
  \<open>JSON_SCHEMA\<close> uses: \<open>type\<close> (object, array, string), \<open>properties\<close>, \<open>required\<close>,
  \<open>additionalProperties\<close> and \<open>items\<close>. The module has no such check; the definition states
  the property the provider's strict mode is meant to give.
\<close>

definition type_ok :: "pyobj option \<Rightarrow> pyobj \<Rightarrow> bool" where
  "type_ok t inst =
     (case t of
        None \<Rightarrow> True
      | Some ty \<Rightarrow>
          (case inst of
             PyDict _ \<Rightarrow> ty = PyStr ''object''
           | PyList _ \<Rightarrow> ty = PyStr ''array''
           | PyStr _ \<Rightarrow> ty = PyStr ''string''
           | PyInt _ \<Rightarrow> ty = PyStr ''integer'' \<or> ty = PyStr ''number''
           | PyFloat _ \<Rightarrow> ty = PyStr ''number''
           | PyBool _ \<Rightarrow> ty = PyStr ''boolean''
           | PyNone \<Rightarrow> ty = PyStr ''null''))"

definition required_ok :: "pyobj option \<Rightarrow> (string \<times> pyobj) list \<Rightarrow> bool" where
  "required_ok req kvs =
     (case req of
        Some (PyList names) \<Rightarrow>
          list_all (\<lambda>n. case n of PyStr k \<Rightarrow> map_of kvs k \<noteq> None | _ \<Rightarrow> False) names
      | _ \<Rightarrow> True)"

definition property_schema :: "(string \<times> pyobj) list \<Rightarrow> string \<Rightarrow> pyobj" where
  "property_schema sch k =
     (case (case map_of sch ''properties'' of Some (PyDict props) \<Rightarrow> map_of props k | _ \<Rightarrow> None) of
        Some s \<Rightarrow> s
      | None \<Rightarrow> (case map_of sch ''additionalProperties'' of Some s \<Rightarrow> s | None \<Rightarrow> PyBool True))"

definition items_schema :: "(string \<times> pyobj) list \<Rightarrow> pyobj" where
  "items_schema sch = (case map_of sch ''items'' of Some s \<Rightarrow> s | None \<Rightarrow> PyBool True)"

fun validates :: "pyobj \<Rightarrow> pyobj \<Rightarrow> bool" where
  "validates (PyBool b) inst = b"
| "validates (PyDict sch) (PyDict kvs) =
     (type_ok (map_of sch ''type'') (PyDict kvs) \<and> required_ok (map_of sch ''required'') kvs \<and>
      list_all (\<lambda>(k, v). validates (property_schema sch k) v) kvs)"
| "validates (PyDict sch) (PyList xs) =
     (type_ok (map_of sch ''type'') (PyList xs) \<and> list_all (validates (items_schema sch)) xs)"
| "validates (PyDict sch) inst = type_ok (map_of sch ''type'') inst"
| "validates _ inst = False"

text \<open>The schema proper is the entry \<open>schema\<close> of \<open>JSON_SCHEMA\<close>.\<close>

definition podcast_schema :: pyobj where
  "podcast_schema =
     (case JSON_SCHEMA of
        PyDict d \<Rightarrow> (case map_of d ''schema'' of Some s \<Rightarrow> s | None \<Rightarrow> PyBool False)
      | _ \<Rightarrow> PyBool False)"

section \<open>The prompt\<close>

text \<open>
  The template has one replacement field, \<open>{title}\<close>, at offset 47 between two single
  quotes, and no other brace. \<open>system_prompt\<close> is the template with a title in the place of
  the field.
\<close>

definition system_prompt :: "string \<Rightarrow> string" where
  "system_prompt title = take 47 PROMPT @ title @ drop 54 PROMPT"

lemma format_loop_literal:
  "list_all (\<lambda>c. c \<noteq> CHR ''{'' \<and> c \<noteq> CHR ''}'') p \<Longrightarrow>
   format_loop kwargs out None (p @ s) = format_loop kwargs (out @ p) None s"
  by (induction p arbitrary: out) auto

lemma PROMPT_field: "take 8 (drop 47 PROMPT) = ''{title}'' @ [CHR 0x27]"
  by code_simp

lemma PROMPT_before: "list_all (\<lambda>c. c \<noteq> CHR ''{'' \<and> c \<noteq> CHR ''}'') (take 47 PROMPT)"
  by code_simp

lemma PROMPT_after: "list_all (\<lambda>c. c \<noteq> CHR ''{'' \<and> c \<noteq> CHR ''}'') (drop 54 PROMPT)"
  by code_simp

lemma PROMPT_start: "take 47 PROMPT = ''Create a highly engaging podcast script named '' @ [CHR 0x27]"
  by code_simp

lemma PROMPT_drop_47: "drop 47 PROMPT = ''{title}'' @ [CHR 0x27] @ drop 55 PROMPT"
proof -
  have "drop 47 PROMPT = take 8 (drop 47 PROMPT) @ drop 8 (drop 47 PROMPT)"
    by (simp only: append_take_drop_id)
  then show ?thesis by (simp add: PROMPT_field)
qed

lemma PROMPT_drop_54: "drop 54 PROMPT = CHR 0x27 # drop 55 PROMPT"
proof -
  have "drop 54 PROMPT = drop 7 (drop 47 PROMPT)" by simp
  also have "\<dots> = CHR 0x27 # drop 55 PROMPT" by (simp only: PROMPT_drop_47) simp
  finally show ?thesis .
qed

lemma PROMPT_split: "PROMPT = take 47 PROMPT @ ''{title}'' @ drop 54 PROMPT"
proof -
  have "PROMPT = take 47 PROMPT @ drop 47 PROMPT"
    by (simp only: append_take_drop_id)
  also have "drop 47 PROMPT = ''{title}'' @ drop 54 PROMPT"
    by (simp only: PROMPT_drop_47 PROMPT_drop_54) simp
  finally show ?thesis .
qed

lemma get_field_title: "get_field [(''title'', t)] ''title'' = Inr t"
  by (simp add: get_field_def is_digit_def)

lemma PROMPT_format: "py_format PROMPT [(''title'', t)] = Inr (system_prompt t)"
proof -
  let ?kw = "[(''title'', t)]"
  have "py_format PROMPT ?kw = format_loop ?kw [] None (take 47 PROMPT @ ''{title}'' @ drop 54 PROMPT)"
    unfolding py_format_def using PROMPT_split by simp
  also have "\<dots> = format_loop ?kw (take 47 PROMPT) None (''{title}'' @ drop 54 PROMPT)"
    using format_loop_literal [OF PROMPT_before, of ?kw "[]"] by simp
  also have "\<dots> = format_loop ?kw (take 47 PROMPT @ t) None (drop 54 PROMPT @ [])"
    by (simp add: get_field_title)
  also have "\<dots> = format_loop ?kw ((take 47 PROMPT @ t) @ drop 54 PROMPT) None []"
    by (rule format_loop_literal [OF PROMPT_after])
  finally show ?thesis by (simp add: system_prompt_def)
qed

lemma system_prompt_start:
  "system_prompt t =
     ''Create a highly engaging podcast script named '' @ [CHR 0x27] @ t @ [CHR 0x27] @ drop 55 PROMPT"
  by (simp add: system_prompt_def PROMPT_start PROMPT_drop_54)

section \<open>The run as a whole\<close>

text \<open>The request of a run: formatting the template does not fail.\<close>

definition request_for :: "(string \<rightharpoonup> string) \<Rightarrow> string \<Rightarrow> string \<Rightarrow> create_kwargs" where
  "request_for env document title =
     \<lparr>messages =
        [[(''role'', ''system''), (''content'', system_prompt title)],
         [(''role'', ''user''), (''content'', ''<documents>'' @ document @ ''</documents>'')]],
      model = os_getenv_default env ''AZURE_OPENAI_MODEL_DEPLOYMENT'' ''gpt-4o'',
      temperature = ''0.7'',
      response_format =
        PyDict [(''type'', PyStr ''json_schema''), (''json_schema'', JSON_SCHEMA)],
      max_tokens = 8000\<rparr>"

definition title_or_default :: "string option \<Rightarrow> string" where
  "title_or_default title_arg = (case title_arg of None \<Rightarrow> ''AI in Action'' | Some t \<Rightarrow> t)"

lemma create_request_eq: "create_request env document title = Inr (request_for env document title)"
  by (simp add: create_request_def request_for_def PROMPT_format)

lemma run_eq:
  "document_to_podcast_script w document title_arg =
     (case snd (make_client w) of
        Inl e \<Rightarrow> (fst (make_client w), Inl e)
      | Inr client \<Rightarrow>
          (fst (make_client w) @
             [Call_create client (request_for (environ w) document (title_or_default title_arg))],
           case chat_completions_create w client
                  (request_for (environ w) document (title_or_default title_arg)) of
             Inl e \<Rightarrow> Inl e
           | Inr chat_completion \<Rightarrow> read_completion chat_completion))"
  by (cases "make_client w")
    (simp add: document_to_podcast_script_def title_or_default_def create_request_eq
      split: sum.splits)

lemma requests_append: "requests (xs @ ys) = requests xs @ requests ys"
  by (induction xs rule: requests.induct) simp_all

lemma constructions_append: "constructions (xs @ ys) = constructions xs @ constructions ys"
  by (induction xs rule: constructions.induct) simp_all

lemma requests_make_client: "requests (fst (make_client w)) = []"
  by (simp add: make_client_def Let_def split: sum.splits)

lemma requests_run:
  "requests (fst (document_to_podcast_script w document title_arg)) =
     (case snd (make_client w) of
        Inl e \<Rightarrow> []
      | Inr client \<Rightarrow> [(client, request_for (environ w) document (title_or_default title_arg))])"
  by (simp add: run_eq requests_append requests_make_client split: sum.splits)

lemma outbound_append: "outbound w (xs @ ys) = outbound w xs @ outbound w ys"
  by (induction w xs rule: outbound.induct) simp_all

lemma outbound_make_client: "outbound w (fst (make_client w)) = []"
  by (simp add: make_client_def Let_def split: sum.splits)

lemma outbound_run:
  "outbound w (fst (document_to_podcast_script w document title_arg)) =
     (case snd (make_client w) of
        Inl e \<Rightarrow> []
      | Inr client \<Rightarrow>
          replicate
            (http_attempts w client (request_for (environ w) document (title_or_default title_arg)))
            (client, request_for (environ w) document (title_or_default title_arg)))"
  by (simp add: run_eq outbound_append outbound_make_client split: sum.splits)

lemma constructions_run:
  "constructions (fst (document_to_podcast_script w document title_arg)) =
     constructions (fst (make_client w))"
  by (simp add: run_eq constructions_append split: sum.splits)

lemma json_loads_not_IndexError: "json_loads s \<noteq> Inl IndexError"
  by (simp add: json_loads_def split: option.splits sum.splits)

section \<open>Example collaborators\<close>

text \<open>
  Concrete collaborators for the examples below: an environment with a key and an
  endpoint, one with an empty key, one with a key and no endpoint; a constructor that
  accepts every argument and one that raises when it is given no endpoint, as the client
  library does when the variable is not set either; a provider that answers every
  request with one given outcome, through a client library that sends each request once.
\<close>

definition env_key :: "string \<rightharpoonup> string" where
  "env_key =
     [''AZURE_OPENAI_KEY'' \<mapsto> ''secret'',
      ''AZURE_OPENAI_ENDPOINT'' \<mapsto> ''https://example.openai.azure.com'']"

definition env_empty_key :: "string \<rightharpoonup> string" where
  "env_empty_key =
     [''AZURE_OPENAI_KEY'' \<mapsto> [],
      ''AZURE_OPENAI_ENDPOINT'' \<mapsto> ''https://example.openai.azure.com'']"

definition env_no_endpoint :: "string \<rightharpoonup> string" where
  "env_no_endpoint = [''AZURE_OPENAI_KEY'' \<mapsto> ''secret'']"

definition accepting :: "unit AzureOpenAI_kwargs \<Rightarrow> py_error option" where
  "accepting kwargs = None"

definition needs_endpoint :: "unit AzureOpenAI_kwargs \<Rightarrow> py_error option" where
  "needs_endpoint kwargs =
     (if azure_endpoint kwargs = Some None then Some (External ''ValueError: no endpoint'')
      else None)"

definition example_world ::
  "(string \<rightharpoonup> string) \<Rightarrow> (unit AzureOpenAI_kwargs \<Rightarrow> py_error option)
     \<Rightarrow> py_error + ChatCompletion \<Rightarrow> (unit, nat) world" where
  "example_world env constructor answer =
     \<lparr>environ = env,
      get_token_provider = Inr (),
      AzureOpenAI = constructor,
      chat_completions_create = (\<lambda>client request. answer),
      http_attempts = (\<lambda>client request. 1),
      encoding_for_model = (\<lambda>n name. Inr n)\<rparr>"

definition example_usage :: CompletionUsage where
  "example_usage = \<lparr>completion_tokens = 900, prompt_tokens = 1200, total_tokens = 2100\<rparr>"

definition completion_with :: "string option \<Rightarrow> ChatCompletion" where
  "completion_with c =
     \<lparr>ChatCompletion.choices = [\<lparr>message = \<lparr>content = c\<rparr>\<rparr>],
      ChatCompletion.usage = Some example_usage\<rparr>"

definition key_client :: "unit AzureOpenAI_kwargs" where
  "key_client =
     \<lparr>api_key = Some ''secret'',
      api_version = ''2024-09-01-preview'',
      azure_endpoint = Some (Some ''https://example.openai.azure.com''),
      azure_ad_token_provider = None\<rparr>"

lemma make_client_example:
  "make_client (example_world env_key accepting answer) = ([Call_AzureOpenAI key_client], Inr key_client)"
  by (simp add: make_client_def Let_def example_world_def env_key_def accepting_def
      key_client_def os_getenv_def truthy_def)

section \<open>Claims\<close>

text \<open>
  C1, as amended. In every run, the calls of \<^verbatim>\<open>client.chat.completions.create\<close> are none when
  the client could not be built (the token provider or the constructor raised) and
  otherwise exactly one, whose request carries exactly two messages: a system message
  whose content is the template with the title in the place of \<open>{title}\<close>, which is what
  \<^verbatim>\<open>PROMPT.format\<close> returns and which starts with
  \<open>Create a highly engaging podcast script named '<title>'\<close>, and a user message whose
  content is \<open><documents>\<close>, the document unchanged, and \<open></documents>\<close>. The HTTP requests
  sent are that one request, as many times as the client library sends it: the module
  does not fix that number.
\<close>

theorem one_create_call_two_messages:
  "(case snd (make_client w) of
      Inl e \<Rightarrow>
        requests (fst (document_to_podcast_script w document (Some title))) = [] \<and>
        outbound w (fst (document_to_podcast_script w document (Some title))) = []
    | Inr client \<Rightarrow>
        (\<exists>request.
           requests (fst (document_to_podcast_script w document (Some title))) = [(client, request)] \<and>
           outbound w (fst (document_to_podcast_script w document (Some title))) =
             replicate (http_attempts w client request) (client, request) \<and>
           messages request =
             [[(''role'', ''system''), (''content'', system_prompt title)],
              [(''role'', ''user''), (''content'', ''<documents>'' @ document @ ''</documents>'')]])) \<and>
   py_format PROMPT [(''title'', title)] = Inr (system_prompt title) \<and>
   system_prompt title =
     ''Create a highly engaging podcast script named '' @ [CHR 0x27] @ title @ [CHR 0x27] @
       drop 55 PROMPT"
proof (intro conjI)
  show "case snd (make_client w) of
      Inl e \<Rightarrow>
        requests (fst (document_to_podcast_script w document (Some title))) = [] \<and>
        outbound w (fst (document_to_podcast_script w document (Some title))) = []
    | Inr client \<Rightarrow>
        (\<exists>request.
           requests (fst (document_to_podcast_script w document (Some title))) = [(client, request)] \<and>
           outbound w (fst (document_to_podcast_script w document (Some title))) =
             replicate (http_attempts w client request) (client, request) \<and>
           messages request =
             [[(''role'', ''system''), (''content'', system_prompt title)],
              [(''role'', ''user''), (''content'', ''<documents>'' @ document @ ''</documents>'')]])"
    by (simp add: requests_run outbound_run request_for_def title_or_default_def
        split: sum.splits)
  show "py_format PROMPT [(''title'', title)] = Inr (system_prompt title)"
    by (rule PROMPT_format)
  show "system_prompt title =
     ''Create a highly engaging podcast script named '' @ [CHR 0x27] @ title @ [CHR 0x27] @
       drop 55 PROMPT"
    by (rule system_prompt_start)
qed

text \<open>
  The example of the specification: one call, sent once by this client library, whose
  user content is exactly \<open><documents>The sky is blue.</documents>\<close>.
\<close>

theorem one_create_call_two_messages_witness:
  "\<exists>request.
     requests (fst (document_to_podcast_script
        (example_world env_key accepting (Inr (completion_with (Some ''{}''))))
        ''The sky is blue.'' (Some ''Space Talk''))) = [(key_client, request)] \<and>
     outbound (example_world env_key accepting (Inr (completion_with (Some ''{}''))))
       (fst (document_to_podcast_script
          (example_world env_key accepting (Inr (completion_with (Some ''{}''))))
          ''The sky is blue.'' (Some ''Space Talk''))) = [(key_client, request)] \<and>
     messages request =
       [[(''role'', ''system''), (''content'', system_prompt ''Space Talk'')],
        [(''role'', ''user''), (''content'', ''<documents>The sky is blue.</documents>'')]] \<and>
     system_prompt ''Space Talk'' =
       ''Create a highly engaging podcast script named '' @ [CHR 0x27] @ ''Space Talk'' @ [CHR 0x27] @
         drop 55 PROMPT"
proof -
  let ?w = "example_world env_key accepting (Inr (completion_with (Some ''{}'')))"
  have once: "http_attempts ?w client request = 1" for client request
    by (simp add: example_world_def)
  from one_create_call_two_messages [of ?w "''The sky is blue.''" "''Space Talk''"]
  show ?thesis
    by (auto simp: make_client_example once)
qed

text \<open>
  C1 as stated fails in two ways. With a key and no endpoint configured the constructor
  raises, the exception leaves the function, and nothing is sent. And where the client
  is built, the one call is not one outbound request when the client library retries:
  the client is built without \<^verbatim>\<open>max_retries\<close>, so the library's default of two retries
  stands, and a library that sends the request three times sends three.
\<close>

theorem one_request_counterexample:
  "document_to_podcast_script
     (example_world env_no_endpoint needs_endpoint (Inr (completion_with (Some ''{}''))))
     ''The sky is blue.'' (Some ''Space Talk'') =
     ([Call_AzureOpenAI
         \<lparr>api_key = Some ''secret'', api_version = ''2024-09-01-preview'',
          azure_endpoint = Some None, azure_ad_token_provider = None\<rparr>],
      Inl (External ''ValueError: no endpoint'')) \<and>
   outbound (example_world env_no_endpoint needs_endpoint (Inr (completion_with (Some ''{}''))))
     (fst (document_to_podcast_script
        (example_world env_no_endpoint needs_endpoint (Inr (completion_with (Some ''{}''))))
        ''The sky is blue.'' (Some ''Space Talk''))) = [] \<and>
   length (outbound
     ((example_world env_key accepting (Inr (completion_with (Some ''{}''))))
        \<lparr>http_attempts := \<lambda>client request. 3\<rparr>)
     (fst (document_to_podcast_script
        ((example_world env_key accepting (Inr (completion_with (Some ''{}''))))
           \<lparr>http_attempts := \<lambda>client request. 3\<rparr>)
        ''The sky is blue.'' (Some ''Space Talk'')))) = 3"
proof (intro conjI)
  let ?w = "example_world env_no_endpoint needs_endpoint (Inr (completion_with (Some ''{}'')))"
  show run: "document_to_podcast_script ?w ''The sky is blue.'' (Some ''Space Talk'') =
     ([Call_AzureOpenAI
         \<lparr>api_key = Some ''secret'', api_version = ''2024-09-01-preview'',
          azure_endpoint = Some None, azure_ad_token_provider = None\<rparr>],
      Inl (External ''ValueError: no endpoint''))"
    by (simp add: run_eq make_client_def Let_def example_world_def env_no_endpoint_def
        needs_endpoint_def os_getenv_def truthy_def)
  show "outbound ?w (fst (document_to_podcast_script ?w ''The sky is blue.'' (Some ''Space Talk''))) = []"
    by (simp only: run fst_conv outbound.simps)
next
  let ?w3 = "(example_world env_key accepting (Inr (completion_with (Some ''{}''))))
        \<lparr>http_attempts := \<lambda>client request. 3\<rparr>"
  have "make_client ?w3 = ([Call_AzureOpenAI key_client], Inr key_client)"
    by (simp add: make_client_def Let_def example_world_def env_key_def accepting_def
        key_client_def os_getenv_def truthy_def)
  then show "length (outbound ?w3
      (fst (document_to_podcast_script ?w3 ''The sky is blue.'' (Some ''Space Talk'')))) = 3"
    by (simp add: outbound_run)
qed

text \<open>
  What validation against \<open>podcast_schema\<close> gives, in words: an object whose \<open>config\<close> is an
  object with a string \<open>language\<close>, and whose \<open>script\<close> is an array of objects that each
  have a \<open>name\<close> and a \<open>message\<close>.
\<close>

definition podcast_shape :: "pyobj \<Rightarrow> bool" where
  "podcast_shape p =
     (case p of
        PyDict kvs \<Rightarrow>
          (case map_of kvs ''config'' of
             Some (PyDict cfg) \<Rightarrow> (case map_of cfg ''language'' of Some (PyStr _) \<Rightarrow> True | _ \<Rightarrow> False)
           | _ \<Rightarrow> False) \<and>
          (case map_of kvs ''script'' of
             Some (PyList entries) \<Rightarrow>
               list_all
                 (\<lambda>entry. case entry of
                    PyDict kvs1 \<Rightarrow> map_of kvs1 ''name'' \<noteq> None \<and> map_of kvs1 ''message'' \<noteq> None
                  | _ \<Rightarrow> False)
                 entries
           | _ \<Rightarrow> False)
      | _ \<Rightarrow> False)"

lemma validates_object:
  assumes "validates (PyDict sch) v" and "map_of sch ''type'' = Some (PyStr ''object'')"
  shows "\<exists>kvs. v = PyDict kvs \<and> required_ok (map_of sch ''required'') kvs \<and>
           (\<forall>k x. map_of kvs k = Some x \<longrightarrow> validates (property_schema sch k) x)"
proof (cases v)
  case (PyDict kvs)
  with assms have req: "required_ok (map_of sch ''required'') kvs"
    and all: "list_all (\<lambda>(k, x). validates (property_schema sch k) x) kvs"
    by simp_all
  have "validates (property_schema sch k) x" if "map_of kvs k = Some x" for k x
  proof -
    from that have "(k, x) \<in> set kvs" by (rule map_of_SomeD)
    with all show ?thesis by (auto simp: list_all_iff)
  qed
  with PyDict req show ?thesis by blast
qed (use assms in \<open>simp_all add: type_ok_def\<close>)

lemma validates_array:
  assumes "validates (PyDict sch) v" and "map_of sch ''type'' = Some (PyStr ''array'')"
  shows "\<exists>xs. v = PyList xs \<and> list_all (validates (items_schema sch)) xs"
  using assms by (cases v) (simp_all add: type_ok_def)

lemma validates_string:
  assumes "validates (PyDict sch) v" and "map_of sch ''type'' = Some (PyStr ''string'')"
  shows "\<exists>s. v = PyStr s"
  using assms by (cases v) (simp_all add: type_ok_def)

definition language_schema :: "(string \<times> pyobj) list" where
  "language_schema =
     [(''type'', PyStr ''string''),
      (''description'', PyStr ''Language code + locale (BCP-47), e.g. en-US or es-PA'')]"

definition config_schema :: "(string \<times> pyobj) list" where
  "config_schema =
     [(''type'', PyStr ''object''),
      (''properties'', PyDict [(''language'', PyDict language_schema)]),
      (''required'', PyList [PyStr ''language'']),
      (''additionalProperties'', PyBool False)]"

definition entry_schema :: "(string \<times> pyobj) list" where
  "entry_schema =
     [(''type'', PyStr ''object''),
      (''properties'',
       PyDict
        [(''name'',
          PyDict
           [(''type'', PyStr ''string''),
            (''description'', PyStr ''Name of the host in lower-case'')]),
         (''message'', PyDict [(''type'', PyStr ''string'')])]),
      (''required'', PyList [PyStr ''name'', PyStr ''message'']),
      (''additionalProperties'', PyBool False)]"

definition script_schema :: "(string \<times> pyobj) list" where
  "script_schema = [(''type'', PyStr ''array''), (''items'', PyDict entry_schema)]"

definition top_schema :: "(string \<times> pyobj) list" where
  "top_schema =
     [(''type'', PyStr ''object''),
      (''properties'', PyDict [(''config'', PyDict config_schema), (''script'', PyDict script_schema)]),
      (''required'', PyList [PyStr ''config'', PyStr ''script'']),
      (''additionalProperties'', PyBool False)]"

lemma podcast_schema_eq: "podcast_schema = PyDict top_schema"
  by (simp add: podcast_schema_def JSON_SCHEMA_def top_schema_def config_schema_def
      script_schema_def entry_schema_def language_schema_def)

lemma validates_entry:
  assumes "validates (PyDict entry_schema) entry"
  shows "case entry of
           PyDict kvs1 \<Rightarrow> map_of kvs1 ''name'' \<noteq> None \<and> map_of kvs1 ''message'' \<noteq> None
         | _ \<Rightarrow> False"
proof -
  have "map_of entry_schema ''type'' = Some (PyStr ''object'')"
    by (simp add: entry_schema_def)
  from validates_object [OF assms this] obtain kvs1 where "entry = PyDict kvs1"
    and "required_ok (map_of entry_schema ''required'') kvs1"
    by blast
  then show ?thesis by (simp add: required_ok_def entry_schema_def)
qed

lemma validates_podcast_shape:
  assumes "validates podcast_schema p"
  shows "podcast_shape p"
proof -
  from assms have top: "validates (PyDict top_schema) p"
    by (simp add: podcast_schema_eq)
  have "map_of top_schema ''type'' = Some (PyStr ''object'')"
    by (simp add: top_schema_def)
  from validates_object [OF top this] obtain kvs where p: "p = PyDict kvs"
    and req: "required_ok (map_of top_schema ''required'') kvs"
    and props: "\<And>k x. map_of kvs k = Some x \<Longrightarrow> validates (property_schema top_schema k) x"
    by blast
  from req obtain c s where c: "map_of kvs ''config'' = Some c" and s: "map_of kvs ''script'' = Some s"
    by (auto simp: required_ok_def top_schema_def)
  from props [OF c] have vc: "validates (PyDict config_schema) c"
    by (simp add: property_schema_def top_schema_def)
  have "map_of config_schema ''type'' = Some (PyStr ''object'')"
    by (simp add: config_schema_def)
  from validates_object [OF vc this] obtain cfg where cfg: "c = PyDict cfg"
    and creq: "required_ok (map_of config_schema ''required'') cfg"
    and cprops: "\<And>k x. map_of cfg k = Some x \<Longrightarrow> validates (property_schema config_schema k) x"
    by blast
  from creq obtain l where l: "map_of cfg ''language'' = Some l"
    by (auto simp: required_ok_def config_schema_def)
  from cprops [OF l] have vl: "validates (PyDict language_schema) l"
    by (simp add: property_schema_def config_schema_def)
  have "map_of language_schema ''type'' = Some (PyStr ''string'')"
    by (simp add: language_schema_def)
  from validates_string [OF vl this] obtain lang where lang: "l = PyStr lang"
    by blast
  from props [OF s] have vs: "validates (PyDict script_schema) s"
    by (simp add: property_schema_def top_schema_def)
  have "map_of script_schema ''type'' = Some (PyStr ''array'')"
    by (simp add: script_schema_def)
  from validates_array [OF vs this] obtain entries where entries: "s = PyList entries"
    and items: "list_all (validates (items_schema script_schema)) entries"
    by blast
  from items have "list_all (validates (PyDict entry_schema)) entries"
    by (simp add: items_schema_def script_schema_def)
  then have "list_all
      (\<lambda>entry. case entry of
         PyDict kvs1 \<Rightarrow> map_of kvs1 ''name'' \<noteq> None \<and> map_of kvs1 ''message'' \<noteq> None
       | _ \<Rightarrow> False) entries"
    by (auto simp: list_all_iff dest: validates_entry)
  with p c cfg l lang s entries show ?thesis
    by (simp add: podcast_shape_def del: not_None_eq)
qed

text \<open>A content that validates, the value it decodes to, and one that decodes but does not.\<close>

definition example_content :: string where
  \<open>example_content =
     ''{"config": {"language": "en-US"}, "script": ['' @
     ''{"name": "andrew", "message": "Hey everyone!"}, {"name": "emma", "message": "Uhm, hi!"}]}''\<close>

definition example_podcast :: pyobj where
  "example_podcast =
     PyDict
      [(''config'', PyDict [(''language'', PyStr ''en-US'')]),
       (''script'',
        PyList
         [PyDict [(''name'', PyStr ''andrew''), (''message'', PyStr ''Hey everyone!'')],
          PyDict [(''name'', PyStr ''emma''), (''message'', PyStr ''Uhm, hi!'')]])]"

lemma json_loads_example: "json_loads (Some example_content) = Inr example_podcast"
  by code_simp

lemma validates_example: "validates podcast_schema example_podcast"
  by code_simp

lemma json_loads_empty_object: "json_loads (Some ''{}'') = Inr (PyDict [])"
  by code_simp

lemma read_completion_with:
  "read_completion (completion_with c) =
     (case json_loads c of
        Inl e \<Rightarrow> Inl e
      | Inr v \<Rightarrow> Inr \<lparr>podcast = v, usage = Some example_usage\<rparr>)"
  by (simp add: read_completion_def completion_with_def split: sum.splits)

lemma run_example:
  "snd (document_to_podcast_script (example_world env_key accepting answer) document title_arg) =
     (case answer of Inl e \<Rightarrow> Inl e | Inr c \<Rightarrow> read_completion c)"
  by (simp add: run_eq make_client_example) (simp add: example_world_def)

text \<open>
  C2, as amended. For every provider response whose message content parses as JSON to a
  value that validates against the declared schema, the function returns a response
  whose \<open>podcast\<close> field is that value, so it validates: it is an object with a config
  object containing a language string and a script array whose entries each have a name
  and a message. The function does not validate: the property is the content's.
\<close>

theorem podcast_validates_when_content_does:
  assumes "snd (make_client w) = Inr client"
    and "chat_completions_create w client
           (request_for (environ w) document (title_or_default title_arg)) = Inr c"
    and "choices c = choice0 # rest"
    and "json_loads (content (message choice0)) = Inr v"
    and "validates podcast_schema v"
  shows "\<exists>r. snd (document_to_podcast_script w document title_arg) = Inr r \<and> podcast r = v \<and>
           validates podcast_schema (podcast r) \<and> podcast_shape (podcast r)"
  using assms by (simp add: run_eq read_completion_def validates_podcast_shape)

theorem podcast_validates_when_content_does_witness:
  "\<exists>r. snd (document_to_podcast_script
            (example_world env_key accepting (Inr (completion_with (Some example_content))))
            ''The sky is blue.'' (Some ''Space Talk'')) = Inr r \<and>
       podcast r = example_podcast \<and> validates podcast_schema (podcast r) \<and>
       podcast_shape (podcast r)"
proof (rule podcast_validates_when_content_does)
  show "snd (make_client (example_world env_key accepting (Inr (completion_with (Some example_content))))) =
      Inr key_client"
    by (simp add: make_client_example)
  show "chat_completions_create
      (example_world env_key accepting (Inr (completion_with (Some example_content)))) key_client
      (request_for (environ (example_world env_key accepting (Inr (completion_with (Some example_content)))))
         ''The sky is blue.'' (title_or_default (Some ''Space Talk''))) =
      Inr (completion_with (Some example_content))"
    by (simp add: example_world_def)
  show "choices (completion_with (Some example_content)) =
      \<lparr>message = \<lparr>content = Some example_content\<rparr>\<rparr> # []"
    by (simp add: completion_with_def)
  show "json_loads (content (message \<lparr>message = \<lparr>content = Some example_content\<rparr>\<rparr>)) = Inr example_podcast"
    by (simp add: json_loads_example)
  show "validates podcast_schema example_podcast"
    by (rule validates_example)
qed

text \<open>
  C2 as stated fails: the content \<open>{}\<close> parses as JSON, and the function returns the empty
  object as the podcast, which has neither a config nor a script.
\<close>

theorem podcast_invalid_counterexample:
  "snd (document_to_podcast_script
          (example_world env_key accepting (Inr (completion_with (Some ''{}''))))
          ''The sky is blue.'' (Some ''Space Talk'')) =
     Inr \<lparr>podcast = PyDict [], usage = Some example_usage\<rparr> \<and>
   json_loads (Some ''{}'') = Inr (PyDict []) \<and>
   \<not> validates podcast_schema (PyDict [])"
proof (intro conjI)
  show "snd (document_to_podcast_script
          (example_world env_key accepting (Inr (completion_with (Some ''{}''))))
          ''The sky is blue.'' (Some ''Space Talk'')) =
     Inr \<lparr>podcast = PyDict [], usage = Some example_usage\<rparr>"
    by (simp add: run_example read_completion_with json_loads_empty_object)
  show "json_loads (Some ''{}'') = Inr (PyDict [])"
    by (rule json_loads_empty_object)
  show "\<not> validates podcast_schema (PyDict [])"
    by (simp add: podcast_schema_eq top_schema_def required_ok_def)
qed

lemma make_client_empty_key:
  "make_client (example_world env_empty_key accepting answer) =
     ([Call_get_token_provider,
       Call_AzureOpenAI
         \<lparr>api_key = Some [], api_version = ''2024-09-01-preview'',
          azure_endpoint = None, azure_ad_token_provider = Some ()\<rparr>],
      Inr \<lparr>api_key = Some [], api_version = ''2024-09-01-preview'',
           azure_endpoint = None, azure_ad_token_provider = Some ()\<rparr>)"
  by (simp add: make_client_def Let_def example_world_def env_empty_key_def accepting_def
      os_getenv_def truthy_def)

lemma calls_run:
  "fst (document_to_podcast_script w document title_arg) =
     fst (make_client w) @
       (case snd (make_client w) of
          Inl e \<Rightarrow> []
        | Inr client \<Rightarrow>
            [Call_create client (request_for (environ w) document (title_or_default title_arg))])"
  by (simp add: run_eq split: sum.splits)

text \<open>
  C3, as amended. Every invocation takes exactly one of two authentication paths,
  selected by the truth value of \<^verbatim>\<open>AZURE_OPENAI_KEY\<close>. When it is set to a string that is not
  empty, the token provider is not called and the one client is constructed with the
  key and the value of \<^verbatim>\<open>AZURE_OPENAI_ENDPOINT\<close>, and no token provider. Otherwise (not set,
  or set to the empty string) the token provider is called first, and the one client, if
  the provider is obtained, is constructed with it and with no endpoint argument.
\<close>

theorem auth_path_by_truth_value:
  "(if truthy (os_getenv (environ w) ''AZURE_OPENAI_KEY'') then
      Call_get_token_provider \<notin> set (fst (document_to_podcast_script w document title_arg)) \<and>
      constructions (fst (document_to_podcast_script w document title_arg)) =
        [\<lparr>api_key = os_getenv (environ w) ''AZURE_OPENAI_KEY'',
          api_version = ''2024-09-01-preview'',
          azure_endpoint = Some (os_getenv (environ w) ''AZURE_OPENAI_ENDPOINT''),
          azure_ad_token_provider = None\<rparr>]
    else
      take 1 (fst (document_to_podcast_script w document title_arg)) = [Call_get_token_provider] \<and>
      constructions (fst (document_to_podcast_script w document title_arg)) =
        (case get_token_provider w of
           Inl e \<Rightarrow> []
         | Inr tp \<Rightarrow>
             [\<lparr>api_key = os_getenv (environ w) ''AZURE_OPENAI_KEY'',
               api_version = ''2024-09-01-preview'',
               azure_endpoint = None,
               azure_ad_token_provider = Some tp\<rparr>]))"
  by (simp add: constructions_run calls_run make_client_def Let_def split: sum.splits)

theorem auth_path_by_truth_value_witness:
  "truthy (os_getenv (environ (example_world env_key accepting (Inr (completion_with (Some ''{}'')))))
     ''AZURE_OPENAI_KEY'') \<and>
   Call_get_token_provider \<notin> set (fst (document_to_podcast_script
     (example_world env_key accepting (Inr (completion_with (Some ''{}''))))
     ''The sky is blue.'' (Some ''Space Talk''))) \<and>
   constructions (fst (document_to_podcast_script
     (example_world env_key accepting (Inr (completion_with (Some ''{}''))))
     ''The sky is blue.'' (Some ''Space Talk''))) = [key_client]"
  using auth_path_by_truth_value
    [of "example_world env_key accepting (Inr (completion_with (Some ''{}'')))"
        "''The sky is blue.''" "Some ''Space Talk''"]
  by (simp add: example_world_def env_key_def os_getenv_def truthy_def key_client_def)

text \<open>
  C3 as stated fails: with the key set to the empty string the variable is set, and the
  client is constructed with the token provider.
\<close>

theorem key_set_token_path_counterexample:
  "os_getenv (environ (example_world env_empty_key accepting (Inr (completion_with (Some ''{}'')))))
     ''AZURE_OPENAI_KEY'' = Some [] \<and>
   constructions (fst (document_to_podcast_script
     (example_world env_empty_key accepting (Inr (completion_with (Some ''{}''))))
     ''The sky is blue.'' (Some ''Space Talk''))) =
     [\<lparr>api_key = Some [], api_version = ''2024-09-01-preview'',
       azure_endpoint = None, azure_ad_token_provider = Some ()\<rparr>]"
  by (simp add: constructions_run make_client_empty_key)
    (simp add: example_world_def env_empty_key_def os_getenv_def)






lemma make_client_api_version:
  "snd (make_client w) = Inr client \<Longrightarrow> api_version client = ''2024-09-01-preview''"
  by (auto simp: make_client_def Let_def split: if_splits sum.splits option.splits)

text \<open>
  C5. Every request a run issues goes through a client of API version
  \<open>2024-09-01-preview\<close> and carries temperature 0.7, a cap of 8000 output tokens, a
  response format of type \<open>json_schema\<close> whose schema is \<open>JSON_SCHEMA\<close>, named \<open>podcast\<close> and
  strict, and as model the value of \<^verbatim>\<open>AZURE_OPENAI_MODEL_DEPLOYMENT\<close>, or \<open>gpt-4o\<close> when that
  is not set.
\<close>

theorem request_parameters_fixed:
  "\<forall>(client, request) \<in> set (requests (fst (document_to_podcast_script w document title_arg))).
     api_version client = ''2024-09-01-preview'' \<and>
     temperature request = ''0.7'' \<and>
     max_tokens request = 8000 \<and>
     response_format request =
       PyDict [(''type'', PyStr ''json_schema''), (''json_schema'', JSON_SCHEMA)] \<and>
     (case JSON_SCHEMA of
        PyDict d \<Rightarrow>
          map_of d ''name'' = Some (PyStr ''podcast'') \<and> map_of d ''strict'' = Some (PyBool True) \<and>
          map_of d ''schema'' = Some podcast_schema
      | _ \<Rightarrow> False) \<and>
     model request =
       (case environ w ''AZURE_OPENAI_MODEL_DEPLOYMENT'' of None \<Rightarrow> ''gpt-4o'' | Some m \<Rightarrow> m)"
proof -
  have schema: "case JSON_SCHEMA of
        PyDict d \<Rightarrow>
          map_of d ''name'' = Some (PyStr ''podcast'') \<and> map_of d ''strict'' = Some (PyBool True) \<and>
          map_of d ''schema'' = Some podcast_schema
      | _ \<Rightarrow> False"
    by (simp add: podcast_schema_def JSON_SCHEMA_def)
  show ?thesis
  proof (cases "snd (make_client w)")
    case (Inl e)
    then show ?thesis by (simp add: requests_run)
  next
    case (Inr client)
    with schema make_client_api_version [OF Inr] show ?thesis
      by (simp add: requests_run request_for_def os_getenv_default_def)
  qed
qed

theorem request_parameters_fixed_witness:
  "requests (fst (document_to_podcast_script
      (example_world env_key accepting (Inr (completion_with (Some ''{}''))))
      ''The sky is blue.'' (Some ''Space Talk''))) =
     [(key_client, request_for env_key ''The sky is blue.'' ''Space Talk'')] \<and>
   api_version key_client = ''2024-09-01-preview'' \<and>
   temperature (request_for env_key ''The sky is blue.'' ''Space Talk'') = ''0.7'' \<and>
   max_tokens (request_for env_key ''The sky is blue.'' ''Space Talk'') = 8000 \<and>
   model (request_for env_key ''The sky is blue.'' ''Space Talk'') = ''gpt-4o''"
  using request_parameters_fixed
    [of "example_world env_key accepting (Inr (completion_with (Some ''{}'')))"
        "''The sky is blue.''" "Some ''Space Talk''"]
  by (simp add: requests_run make_client_example title_or_default_def)
    (simp add: example_world_def env_key_def)

text \<open>A number of calls of \<open>get_encoding\<close> one after the other, with their results in order.\<close>

fun get_encoding_times ::
  "nat \<Rightarrow> ('tp, 'enc) world \<Rightarrow> 'enc process \<Rightarrow> (py_error + 'enc) list \<times> 'enc process" where
  "get_encoding_times 0 w p = ([], p)"
| "get_encoding_times (Suc n) w p =
     (case get_encoding w p of
        (r, p') \<Rightarrow> (case get_encoding_times n w p' of (rs, p'') \<Rightarrow> (r # rs, p'')))"

lemma get_encoding_cached:
  "cache_resource p = Some encoding \<Longrightarrow> get_encoding w p = (Inr encoding, p)"
  by (simp add: get_encoding_def st_cache_resource_def)

lemma get_encoding_stores:
  "get_encoding w p = (Inr encoding, p') \<Longrightarrow> cache_resource p' = Some encoding"
  by (auto simp: get_encoding_def st_cache_resource_def get_encoding_body_def
      split: option.splits sum.splits)

lemma get_encoding_times_cached:
  "cache_resource p = Some encoding \<Longrightarrow>
   get_encoding_times n w p = (replicate n (Inr encoding), p)"
  by (induction n) (simp_all add: get_encoding_cached)

text \<open>
  C6. Once a call of \<open>get_encoding\<close> has returned an encoding, every later call in the
  process returns that same encoding, whatever the environment and whatever tiktoken
  would answer by then, and asks tiktoken for nothing. A call that finds nothing stored
  asks tiktoken once, for \<open>gpt-4o\<close>, and returns what tiktoken returns. The value of
  \<^verbatim>\<open>AZURE_OPENAI_MODEL_DEPLOYMENT\<close>, like the rest of the environment, has no influence.
\<close>

theorem get_encoding_memoized:
  "(get_encoding w p = (Inr encoding, p') \<longrightarrow>
      get_encoding w' p' = (Inr encoding, p') \<and>
      get_encoding_times n w' p' = (replicate n (Inr encoding), p')) \<and>
   tiktoken_calls (snd (get_encoding w p)) =
     (if cache_resource p = None then tiktoken_calls p @ [''gpt-4o''] else tiktoken_calls p) \<and>
   (cache_resource p = None \<longrightarrow>
      fst (get_encoding w p) = encoding_for_model w (length (tiktoken_calls p)) ''gpt-4o'') \<and>
   get_encoding (w\<lparr>environ := env\<rparr>) p = get_encoding w p"
proof (intro conjI impI)
  assume "get_encoding w p = (Inr encoding, p')"
  then have stored: "cache_resource p' = Some encoding"
    by (rule get_encoding_stores)
  then show "get_encoding w' p' = (Inr encoding, p')"
    by (rule get_encoding_cached)
  from stored show "get_encoding_times n w' p' = (replicate n (Inr encoding), p')"
    by (rule get_encoding_times_cached)
next
  show "tiktoken_calls (snd (get_encoding w p)) =
      (if cache_resource p = None then tiktoken_calls p @ [''gpt-4o''] else tiktoken_calls p)"
    by (auto simp: get_encoding_def st_cache_resource_def get_encoding_body_def
        split: option.splits sum.splits)
next
  assume "cache_resource p = None"
  then show "fst (get_encoding w p) = encoding_for_model w (length (tiktoken_calls p)) ''gpt-4o''"
    by (auto simp: get_encoding_def st_cache_resource_def get_encoding_body_def
        split: option.splits sum.splits)
next
  have "get_encoding_body (w\<lparr>environ := env\<rparr>) = get_encoding_body w"
    by (rule ext) (simp add: get_encoding_body_def)
  then show "get_encoding (w\<lparr>environ := env\<rparr>) p = get_encoding w p"
    by (simp add: get_encoding_def)
qed

text \<open>
  In a fresh process, with a tiktoken that would hand out a new encoding at every call
  (the \<open>n\<close>-th call returns \<open>n\<close>): the first call returns encoding 0, and three more calls,
  under another model deployment, return encoding 0 again without asking tiktoken.
\<close>

theorem get_encoding_memoized_witness:
  "get_encoding (example_world env_key accepting (Inl (External ''unused'')))
     \<lparr>cache_resource = None, tiktoken_calls = []\<rparr> =
     (Inr 0, \<lparr>cache_resource = Some 0, tiktoken_calls = [''gpt-4o'']\<rparr>) \<and>
   get_encoding_times 3
     (example_world (env_key(''AZURE_OPENAI_MODEL_DEPLOYMENT'' \<mapsto> ''gpt-35-turbo'')) accepting
        (Inl (External ''unused'')))
     \<lparr>cache_resource = Some 0, tiktoken_calls = [''gpt-4o'']\<rparr> =
     ([Inr 0, Inr 0, Inr 0], \<lparr>cache_resource = Some 0, tiktoken_calls = [''gpt-4o'']\<rparr>)"
proof -
  let ?w = "example_world env_key accepting (Inl (External ''unused''))"
  let ?w' = "example_world (env_key(''AZURE_OPENAI_MODEL_DEPLOYMENT'' \<mapsto> ''gpt-35-turbo'')) accepting
        (Inl (External ''unused''))"
  let ?p = "\<lparr>cache_resource = None, tiktoken_calls = []\<rparr> :: nat process"
  let ?p' = "\<lparr>cache_resource = Some 0, tiktoken_calls = [''gpt-4o'']\<rparr> :: nat process"
  have first: "get_encoding ?w ?p = (Inr 0, ?p')"
    by (simp add: get_encoding_def st_cache_resource_def get_encoding_body_def example_world_def)
  with get_encoding_memoized [of ?w ?p 0 ?p' ?w' 3]
  have "get_encoding_times 3 ?w' ?p' = (replicate 3 (Inr 0), ?p')"
    by blast
  with first show ?thesis
    by (simp add: numeral_3_eq_3)
qed



text \<open>
  C8. A call without a title is the call with the title \<open>AI in Action\<close>: the same calls into
  the collaborators and the same outcome. The system message of its request is the
  template with \<open>AI in Action\<close> in the place of the field.
\<close>

theorem default_title:
  "document_to_podcast_script w document None =
     document_to_podcast_script w document (Some ''AI in Action'') \<and>
   (\<forall>(client, request) \<in> set (requests (fst (document_to_podcast_script w document None))).
      hd (messages request) =
        [(''role'', ''system''), (''content'', system_prompt ''AI in Action'')]) \<and>
   py_format PROMPT [(''title'', ''AI in Action'')] = Inr (system_prompt ''AI in Action'') \<and>
   system_prompt ''AI in Action'' =
     ''Create a highly engaging podcast script named '' @ [CHR 0x27] @ ''AI in Action'' @ [CHR 0x27] @
       drop 55 PROMPT"
proof (intro conjI)
  show "document_to_podcast_script w document None =
      document_to_podcast_script w document (Some ''AI in Action'')"
    by (simp add: document_to_podcast_script_def)
  show "\<forall>(client, request) \<in> set (requests (fst (document_to_podcast_script w document None))).
      hd (messages request) =
        [(''role'', ''system''), (''content'', system_prompt ''AI in Action'')]"
    by (simp add: requests_run request_for_def title_or_default_def split: sum.splits)
  show "py_format PROMPT [(''title'', ''AI in Action'')] = Inr (system_prompt ''AI in Action'')"
    by (rule PROMPT_format)
  show "system_prompt ''AI in Action'' =
     ''Create a highly engaging podcast script named '' @ [CHR 0x27] @ ''AI in Action'' @ [CHR 0x27] @
       drop 55 PROMPT"
    by (rule system_prompt_start)
qed

theorem default_title_witness:
  "map (\<lambda>(client, request). hd (messages request))
     (requests (fst (document_to_podcast_script
        (example_world env_key accepting (Inr (completion_with (Some ''{}''))))
        ''The sky is blue.'' None))) =
     [[(''role'', ''system''), (''content'', system_prompt ''AI in Action'')]]"
proof -
  let ?w = "example_world env_key accepting (Inr (completion_with (Some ''{}'')))"
  have "requests (fst (document_to_podcast_script ?w ''The sky is blue.'' None)) =
      [(key_client, request_for (environ ?w) ''The sky is blue.'' (title_or_default None))]"
    by (simp add: requests_run make_client_example)
  with default_title [of ?w "''The sky is blue.''"] show ?thesis
    by simp
qed

text \<open>
  C9. With \<^verbatim>\<open>AZURE_OPENAI_KEY\<close> set to the empty string the function takes the token provider
  path: it calls the token provider first; when that raises, this is the outcome and
  nothing else is called; when the provider is obtained, the next call is the
  constructor, with the empty string as \<open>api_key\<close>, with the provider, and with no
  \<open>azure_endpoint\<close> argument, and this is the one client the run constructs. With a key
  that is true the one client is constructed with the key and the endpoint value. In every
  run, a constructor call has an \<open>azure_endpoint\<close> argument exactly when the key is true,
  and its \<open>api_key\<close> is the value of the variable.
\<close>

theorem empty_key_selects_token_provider:
  "(os_getenv (environ w) ''AZURE_OPENAI_KEY'' = Some [] \<longrightarrow>
      (case get_token_provider w of
         Inl e \<Rightarrow>
           document_to_podcast_script w document title_arg = ([Call_get_token_provider], Inl e)
       | Inr tp \<Rightarrow>
           take 2 (fst (document_to_podcast_script w document title_arg)) =
             [Call_get_token_provider,
              Call_AzureOpenAI
                \<lparr>api_key = Some [], api_version = ''2024-09-01-preview'',
                 azure_endpoint = None, azure_ad_token_provider = Some tp\<rparr>] \<and>
           constructions (fst (document_to_podcast_script w document title_arg)) =
             [\<lparr>api_key = Some [], api_version = ''2024-09-01-preview'',
               azure_endpoint = None, azure_ad_token_provider = Some tp\<rparr>])) \<and>
   (truthy (os_getenv (environ w) ''AZURE_OPENAI_KEY'') \<longrightarrow>
      constructions (fst (document_to_podcast_script w document title_arg)) =
        [\<lparr>api_key = os_getenv (environ w) ''AZURE_OPENAI_KEY'',
          api_version = ''2024-09-01-preview'',
          azure_endpoint = Some (os_getenv (environ w) ''AZURE_OPENAI_ENDPOINT''),
          azure_ad_token_provider = None\<rparr>]) \<and>
   (\<forall>kwargs \<in> set (constructions (fst (document_to_podcast_script w document title_arg))).
      (azure_endpoint kwargs \<noteq> None) = truthy (os_getenv (environ w) ''AZURE_OPENAI_KEY'') \<and>
      (azure_ad_token_provider kwargs = None) = truthy (os_getenv (environ w) ''AZURE_OPENAI_KEY'') \<and>
      api_key kwargs = os_getenv (environ w) ''AZURE_OPENAI_KEY'')"
proof (intro conjI impI)
  assume key: "os_getenv (environ w) ''AZURE_OPENAI_KEY'' = Some []"
  show "case get_token_provider w of
         Inl e \<Rightarrow>
           document_to_podcast_script w document title_arg = ([Call_get_token_provider], Inl e)
       | Inr tp \<Rightarrow>
           take 2 (fst (document_to_podcast_script w document title_arg)) =
             [Call_get_token_provider,
              Call_AzureOpenAI
                \<lparr>api_key = Some [], api_version = ''2024-09-01-preview'',
                 azure_endpoint = None, azure_ad_token_provider = Some tp\<rparr>] \<and>
           constructions (fst (document_to_podcast_script w document title_arg)) =
             [\<lparr>api_key = Some [], api_version = ''2024-09-01-preview'',
               azure_endpoint = None, azure_ad_token_provider = Some tp\<rparr>]"
  proof (cases "get_token_provider w")
    case (Inl e)
    with key have "make_client w = ([Call_get_token_provider], Inl e)"
      by (simp add: make_client_def truthy_def)
    with Inl show ?thesis
      by (simp add: run_eq)
  next
    case (Inr tp)
    with key have "fst (make_client w) =
        [Call_get_token_provider,
         Call_AzureOpenAI
           \<lparr>api_key = Some [], api_version = ''2024-09-01-preview'',
            azure_endpoint = None, azure_ad_token_provider = Some tp\<rparr>]"
      by (simp add: make_client_def Let_def truthy_def)
    then have "take 2 (fst (document_to_podcast_script w document title_arg)) =
        [Call_get_token_provider,
         Call_AzureOpenAI
           \<lparr>api_key = Some [], api_version = ''2024-09-01-preview'',
            azure_endpoint = None, azure_ad_token_provider = Some tp\<rparr>]"
      by (simp add: calls_run)
    moreover from \<open>fst (make_client w) = _\<close>
    have "constructions (fst (document_to_podcast_script w document title_arg)) =
        [\<lparr>api_key = Some [], api_version = ''2024-09-01-preview'',
          azure_endpoint = None, azure_ad_token_provider = Some tp\<rparr>]"
      by (simp add: constructions_run)
    ultimately show ?thesis
      using Inr by simp
  qed
next
  assume "truthy (os_getenv (environ w) ''AZURE_OPENAI_KEY'')"
  then show "constructions (fst (document_to_podcast_script w document title_arg)) =
        [\<lparr>api_key = os_getenv (environ w) ''AZURE_OPENAI_KEY'',
          api_version = ''2024-09-01-preview'',
          azure_endpoint = Some (os_getenv (environ w) ''AZURE_OPENAI_ENDPOINT''),
          azure_ad_token_provider = None\<rparr>]"
    by (simp add: constructions_run make_client_def Let_def)
next
  show "\<forall>kwargs \<in> set (constructions (fst (document_to_podcast_script w document title_arg))).
      (azure_endpoint kwargs \<noteq> None) = truthy (os_getenv (environ w) ''AZURE_OPENAI_KEY'') \<and>
      (azure_ad_token_provider kwargs = None) = truthy (os_getenv (environ w) ''AZURE_OPENAI_KEY'') \<and>
      api_key kwargs = os_getenv (environ w) ''AZURE_OPENAI_KEY''"
    by (auto simp: constructions_run make_client_def Let_def truthy_def split: sum.splits)
qed

text \<open>
  The function run with the key set to the empty string: the token provider is called,
  then the constructor with the empty key, the provider and no endpoint, then the request
  is made through that client.
\<close>

theorem empty_key_selects_token_provider_witness:
  "os_getenv (environ (example_world env_empty_key accepting (Inr (completion_with (Some ''{}'')))))
     ''AZURE_OPENAI_KEY'' = Some [] \<and>
   fst (document_to_podcast_script
     (example_world env_empty_key accepting (Inr (completion_with (Some ''{}''))))
     ''The sky is blue.'' (Some ''Space Talk'')) =
     [Call_get_token_provider,
      Call_AzureOpenAI
        \<lparr>api_key = Some [], api_version = ''2024-09-01-preview'',
         azure_endpoint = None, azure_ad_token_provider = Some ()\<rparr>,
      Call_create
        \<lparr>api_key = Some [], api_version = ''2024-09-01-preview'',
         azure_endpoint = None, azure_ad_token_provider = Some ()\<rparr>
        (request_for env_empty_key ''The sky is blue.'' ''Space Talk'')] \<and>
   constructions (fst (document_to_podcast_script
     (example_world env_empty_key accepting (Inr (completion_with (Some ''{}''))))
     ''The sky is blue.'' (Some ''Space Talk''))) =
     [\<lparr>api_key = Some [], api_version = ''2024-09-01-preview'',
       azure_endpoint = None, azure_ad_token_provider = Some ()\<rparr>]"
proof -
  let ?w = "example_world env_empty_key accepting (Inr (completion_with (Some ''{}'')))"
  let ?k = "\<lparr>api_key = Some [], api_version = ''2024-09-01-preview'',
       azure_endpoint = None, azure_ad_token_provider = Some ()\<rparr> :: unit AzureOpenAI_kwargs"
  have key: "os_getenv (environ ?w) ''AZURE_OPENAI_KEY'' = Some []"
    by (simp add: example_world_def env_empty_key_def os_getenv_def)
  have tp: "get_token_provider ?w = Inr ()"
    by (simp add: example_world_def)
  from empty_key_selects_token_provider [of ?w "''The sky is blue.''" "Some ''Space Talk''"] key tp
  have two: "take 2 (fst (document_to_podcast_script ?w ''The sky is blue.'' (Some ''Space Talk''))) =
      [Call_get_token_provider, Call_AzureOpenAI ?k]"
    and one: "constructions (fst (document_to_podcast_script ?w ''The sky is blue.'' (Some ''Space Talk''))) =
      [?k]"
    by simp_all
  have "fst (document_to_podcast_script ?w ''The sky is blue.'' (Some ''Space Talk'')) =
      [Call_get_token_provider, Call_AzureOpenAI ?k,
       Call_create ?k (request_for env_empty_key ''The sky is blue.'' ''Space Talk'')]"
    by (simp add: calls_run make_client_empty_key title_or_default_def) (simp add: example_world_def)
  with key one show ?thesis
    by simp
qed

text \<open>
  C10. When the provider answers with a completion, the outcome is decided by its list of
  choices: an empty list is an \<^verbatim>\<open>IndexError\<close> and no response; a list that is not empty
  never is, and only its first element counts, the completion with the other choices
  removed reading the same.
\<close>

theorem first_choice_unguarded:
  "(snd (make_client w) = Inr client \<and>
    chat_completions_create w client
      (request_for (environ w) document (title_or_default title_arg)) = Inr c \<longrightarrow>
      snd (document_to_podcast_script w document title_arg) = read_completion c) \<and>
   (choices c = [] \<longrightarrow> read_completion c = Inl IndexError) \<and>
   (choices c \<noteq> [] \<longrightarrow>
      read_completion c \<noteq> Inl IndexError \<and>
      read_completion c = read_completion (c\<lparr>choices := [hd (choices c)]\<rparr>))"
proof (intro conjI impI)
  assume "snd (make_client w) = Inr client \<and>
    chat_completions_create w client
      (request_for (environ w) document (title_or_default title_arg)) = Inr c"
  then show "snd (document_to_podcast_script w document title_arg) = read_completion c"
    by (simp add: run_eq)
next
  assume "choices c = []"
  then show "read_completion c = Inl IndexError"
    by (simp add: read_completion_def)
next
  assume "choices c \<noteq> []"
  then obtain choice0 rest where c: "choices c = choice0 # rest"
    by (cases "choices c") auto
  then show "read_completion c \<noteq> Inl IndexError"
    using json_loads_not_IndexError [of "content (message choice0)"]
    by (auto simp: read_completion_def split: sum.splits)
  from c show "read_completion c = read_completion (c\<lparr>choices := [hd (choices c)]\<rparr>)"
    by (simp add: read_completion_def split: sum.splits)
qed

theorem first_choice_unguarded_witness:
  "document_to_podcast_script
     (example_world env_key accepting
        (Inr \<lparr>ChatCompletion.choices = [], ChatCompletion.usage = Some example_usage\<rparr>))
     ''The sky is blue.'' (Some ''Space Talk'') =
     ([Call_AzureOpenAI key_client,
       Call_create key_client (request_for env_key ''The sky is blue.'' ''Space Talk'')],
      Inl IndexError) \<and>
   read_completion
     \<lparr>ChatCompletion.choices =
        [\<lparr>message = \<lparr>content = Some example_content\<rparr>\<rparr>, \<lparr>message = \<lparr>content = Some ''not json''\<rparr>\<rparr>],
      ChatCompletion.usage = Some example_usage\<rparr> =
     Inr \<lparr>podcast = example_podcast, usage = Some example_usage\<rparr>"
proof (intro conjI)
  let ?c = "\<lparr>ChatCompletion.choices = [], ChatCompletion.usage = Some example_usage\<rparr>"
  let ?w = "example_world env_key accepting (Inr ?c)"
  have pre: "snd (make_client ?w) = Inr key_client \<and>
      chat_completions_create ?w key_client
        (request_for (environ ?w) ''The sky is blue.'' (title_or_default (Some ''Space Talk''))) = Inr ?c"
    by (simp add: make_client_example) (simp add: example_world_def)
  have "choices ?c = []" by simp
  with pre first_choice_unguarded
    [of ?w key_client "''The sky is blue.''" "Some ''Space Talk''" ?c]
  have "snd (document_to_podcast_script ?w ''The sky is blue.'' (Some ''Space Talk'')) = Inl IndexError"
    by simp
  moreover have "fst (document_to_podcast_script ?w ''The sky is blue.'' (Some ''Space Talk'')) =
      [Call_AzureOpenAI key_client,
       Call_create key_client (request_for env_key ''The sky is blue.'' ''Space Talk'')]"
    by (simp add: calls_run make_client_example title_or_default_def) (simp add: example_world_def)
  ultimately show "document_to_podcast_script ?w ''The sky is blue.'' (Some ''Space Talk'') =
     ([Call_AzureOpenAI key_client,
       Call_create key_client (request_for env_key ''The sky is blue.'' ''Space Talk'')],
      Inl IndexError)"
    by (simp add: prod_eq_iff)
next
  let ?c2 = "\<lparr>ChatCompletion.choices =
        [\<lparr>message = \<lparr>content = Some example_content\<rparr>\<rparr>, \<lparr>message = \<lparr>content = Some ''not json''\<rparr>\<rparr>],
      ChatCompletion.usage = Some example_usage\<rparr>"
  have "choices ?c2 \<noteq> []" by simp
  with first_choice_unguarded [of _ _ _ _ ?c2]
  have "read_completion ?c2 = read_completion (?c2\<lparr>choices := [hd (choices ?c2)]\<rparr>)"
    by blast
  also have "\<dots> = read_completion (completion_with (Some example_content))"
    by (simp add: completion_with_def)
  also have "\<dots> = Inr \<lparr>podcast = example_podcast, usage = Some example_usage\<rparr>"
    by (simp add: read_completion_with json_loads_example)
  finally show "read_completion ?c2 = Inr \<lparr>podcast = example_podcast, usage = Some example_usage\<rparr>" .
qed


end
